theory Spec2Isabelle
  imports Complex_Main "HOL-Library.Word" "HOL-Library.Sublist"
begin

section \<open>JavaScript values\<close>

text \<open>
  A JavaScript string is a sequence of UTF-16 code units; \<open>length\<close> counts code units,
  as \<^verbatim>\<open>text.length\<close> does. \<open>js\<close> turns an ASCII literal into such a string.
\<close>

type_synonym jschar = "16 word"
type_synonym jsstring = "jschar list"

definition js :: "string \<Rightarrow> jsstring" where
  "js s = map of_char s"

text \<open>
  A JavaScript number is modelled by its exact rational value, or \<open>NaN\<close>. The rounding
  of IEEE doubles and the infinities are not modelled.
\<close>

datatype jsnum = NaN | Num rat

definition js_times :: "jsnum \<Rightarrow> rat \<Rightarrow> jsnum" where
  "js_times x k = (case x of NaN \<Rightarrow> NaN | Num q \<Rightarrow> Num (q * k))"

definition Math_floor :: "jsnum \<Rightarrow> jsnum" where
  "Math_floor x = (case x of NaN \<Rightarrow> NaN | Num q \<Rightarrow> Num (of_int \<lfloor>q\<rfloor>))"

definition js_positive :: "jsnum \<Rightarrow> bool" where
  \<comment> \<open>\<^verbatim>\<open>num > 0\<close>; false for NaN\<close>
  "js_positive x = (case x of NaN \<Rightarrow> False | Num q \<Rightarrow> 0 < q)"

definition isDigit :: "jschar \<Rightarrow> bool" where
  \<comment> \<open>the class \<^verbatim>\<open>\d\<close>: ASCII 0 to 9\<close>
  "isDigit c \<longleftrightarrow> 0x30 \<le> c \<and> c \<le> 0x39"

definition isSpace :: "jschar \<Rightarrow> bool" where
  \<comment> \<open>the class \<^verbatim>\<open>\s\<close>, also what \<^verbatim>\<open>trim()\<close> strips: white space and line terminators\<close>
  "isSpace c \<longleftrightarrow>
     c \<in> {0x09, 0x0A, 0x0B, 0x0C, 0x0D, 0x20, 0xA0, 0x1680, 0x2028, 0x2029, 0x202F,
          0x205F, 0x3000, 0xFEFF} \<or> (0x2000 \<le> c \<and> c \<le> 0x200A)"

definition isWordChar :: "jschar \<Rightarrow> bool" where
  \<comment> \<open>the class \<^verbatim>\<open>[a-zA-Z0-9_]\<close>\<close>
  "isWordChar c \<longleftrightarrow>
     (0x61 \<le> c \<and> c \<le> 0x7A) \<or> (0x41 \<le> c \<and> c \<le> 0x5A) \<or> isDigit c \<or> c = 0x5F"

definition trim :: "jsstring \<Rightarrow> jsstring" where
  "trim s = rev (dropWhile isSpace (rev (dropWhile isSpace s)))"

definition digit_val :: "jschar \<Rightarrow> nat" where
  "digit_val c = unat c - 48"

definition digits_value :: "jsstring \<Rightarrow> nat" where
  "digits_value ds = foldl (\<lambda>acc c. 10 * acc + digit_val c) 0 ds"

definition parseInt :: "jsstring \<Rightarrow> jsnum" where
  \<comment> \<open>\<^verbatim>\<open>parseInt\<close> on the strings it is given here, runs of digits: the value of the
     longest prefix of digits, NaN when there is none\<close>
  "parseInt s =
     (let ds = takeWhile isDigit s
      in if ds = [] then NaN else Num (of_nat (digits_value ds)))"

definition parseFloat :: "jsstring \<Rightarrow> jsnum" where
  \<comment> \<open>\<^verbatim>\<open>parseFloat\<close> on the strings it is given here (digits with at most one dot, no
     sign, exponent or white space): the longest prefix \<^verbatim>\<open>digits [. digits]\<close> or
     \<^verbatim>\<open>. digits\<close>, NaN when it holds no digit\<close>
  "parseFloat s =
     (let ip = takeWhile isDigit s;
          r = dropWhile isDigit s;
          fp = (case r of [] \<Rightarrow> [] | c # r' \<Rightarrow> if c = 0x2E then takeWhile isDigit r' else [])
      in if ip = [] \<and> fp = [] then NaN
         else Num (of_nat (digits_value ip) + of_nat (digits_value fp) / 10 ^ length fp))"

definition toUpperCase :: "jsstring \<Rightarrow> jsstring" where
  \<comment> \<open>on the ASCII letters, all that reaches it here\<close>
  "toUpperCase s = map (\<lambda>c. if 0x61 \<le> c \<and> c \<le> 0x7A then c - 0x20 else c) s"

fun show_digits :: "nat \<Rightarrow> nat \<Rightarrow> jsstring" where
  "show_digits 0 n = []"
| "show_digits (Suc fuel) n =
     (if n < 10 then [of_nat (48 + n)]
      else show_digits fuel (n div 10) @ [of_nat (48 + n mod 10)])"

definition show_nat :: "nat \<Rightarrow> jsstring" where
  \<comment> \<open>the decimal rendering of a non-negative integer in a template literal\<close>
  "show_nat n = show_digits (Suc n) n"

section \<open>The selector registry: \<^verbatim>\<open>parseEngagement\<close>\<close>

definition isCountChar :: "jschar \<Rightarrow> bool" where
  \<comment> \<open>the class \<^verbatim>\<open>[\d.,KMBkmb]\<close>\<close>
  "isCountChar c \<longleftrightarrow> isDigit c \<or> c \<in> {0x2E, 0x2C, 0x4B, 0x4D, 0x42, 0x6B, 0x6D, 0x62}"

definition isSuffixChar :: "jschar \<Rightarrow> bool" where
  \<comment> \<open>the class \<^verbatim>\<open>[KMBkmb]\<close>\<close>
  "isSuffixChar c \<longleftrightarrow> c \<in> {0x4B, 0x4D, 0x42, 0x6B, 0x6D, 0x62}"

definition isDigitOrComma :: "jschar \<Rightarrow> bool" where
  \<comment> \<open>the class \<^verbatim>\<open>[\d,]\<close>\<close>
  "isDigitOrComma c \<longleftrightarrow> isDigit c \<or> c = 0x2C"

definition cleanText :: "jsstring \<Rightarrow> jsstring" where
  \<comment> \<open>\<^verbatim>\<open>text.replace(/[^\d.,KMBkmb]/gi, '')\<close>\<close>
  "cleanText text = filter isCountChar text"

definition count_match_here :: "jsstring \<Rightarrow> jsstring \<times> jsstring" where
  \<comment> \<open>\<^verbatim>\<open>([\d,]+\.?\d*)\s*([KMBkmb]?)\<close> at a position that starts with a digit or a comma.
     Every part after the first is optional, so the greedy choice is the match.\<close>
  "count_match_here s =
     (let run = takeWhile isDigitOrComma s;
          r1 = dropWhile isDigitOrComma s;
          dot = (case r1 of [] \<Rightarrow> [] | c # _ \<Rightarrow> if c = 0x2E then [c] else []);
          r2 = drop (length dot) r1;
          frac = takeWhile isDigit r2;
          r3 = dropWhile isSpace (dropWhile isDigit r2);
          suffix = (case r3 of [] \<Rightarrow> [] | c # _ \<Rightarrow> if isSuffixChar c then [c] else [])
      in (run @ dot @ frac, suffix))"

fun count_match :: "jsstring \<Rightarrow> (jsstring \<times> jsstring) option" where
  \<comment> \<open>\<^verbatim>\<open>s.match(/([\d,]+\.?\d*)\s*([KMBkmb]?)/i)\<close>: groups 1 and 2 of the leftmost match\<close>
  "count_match [] = None"
| "count_match (c # cs) =
     (if isDigitOrComma c then Some (count_match_here (c # cs)) else count_match cs)"

fun first_digits :: "jsstring \<Rightarrow> jsstring option" where
  \<comment> \<open>\<^verbatim>\<open>text.match(/\d+/)\<close>: the first run of digits\<close>
  "first_digits [] = None"
| "first_digits (c # cs) =
     (if isDigit c then Some (takeWhile isDigit (c # cs)) else first_digits cs)"

definition parseEngagement :: "jsstring \<Rightarrow> jsnum" where
  "parseEngagement text =
     (if text = [] then Num 0
      else case count_match (cleanText text) of
        None \<Rightarrow> (case first_digits text of None \<Rightarrow> Num 0 | Some ds \<Rightarrow> parseInt ds)
      | Some (g1, g2) \<Rightarrow>
          (let num = parseFloat (filter (\<lambda>c. c \<noteq> 0x2C) g1);
               suffix = toUpperCase g2;
               num = (if suffix = [0x4B] then js_times num 1000
                      else if suffix = [0x4D] then js_times num 1000000
                      else if suffix = [0x42] then js_times num 1000000000
                      else num)
           in Math_floor num))"


section \<open>The rendered page\<close>

text \<open>
  The page is reached through \<^verbatim>\<open>querySelectorAll\<close>, \<^verbatim>\<open>querySelector\<close>, \<^verbatim>\<open>textContent\<close> and
  \<^verbatim>\<open>getAttribute\<close> only. The browser's selector engine is not modelled: an element
  carries the answer to every selector query made on it, in document order.
\<close>

datatype element =
  Element (textContent: "jsstring option")
          (getAttribute: "jsstring \<Rightarrow> jsstring option")
          (querySelectorAll: "jsstring \<Rightarrow> element list")

type_synonym document = "jsstring \<Rightarrow> element list"
  \<comment> \<open>\<^verbatim>\<open>document.querySelectorAll\<close>\<close>

definition querySelector :: "element \<Rightarrow> jsstring \<Rightarrow> element option" where
  "querySelector el selector =
     (case querySelectorAll el selector of [] \<Rightarrow> None | x # _ \<Rightarrow> Some x)"

definition document_querySelector :: "document \<Rightarrow> jsstring \<Rightarrow> element option" where
  "document_querySelector doc selector =
     (case doc selector of [] \<Rightarrow> None | x # _ \<Rightarrow> Some x)"

definition or_empty :: "jsstring option \<Rightarrow> jsstring" where
  \<comment> \<open>\<^verbatim>\<open>x || ''\<close>\<close>
  "or_empty x = (case x of None \<Rightarrow> [] | Some s \<Rightarrow> s)"

fun js_includes :: "jsstring \<Rightarrow> jsstring \<Rightarrow> bool" where
  "js_includes [] p = (p = [])"
| "js_includes (c # cs) p = (take (length p) (c # cs) = p \<or> js_includes cs p)"

record clock_reading =
  Date_now :: nat  \<comment> \<open>\<^verbatim>\<open>Date.now()\<close>, milliseconds\<close>
  toISOString :: jsstring  \<comment> \<open>\<^verbatim>\<open>new Date().toISOString()\<close>\<close>

section \<open>The extraction engine: \<^verbatim>\<open>TwitterService.extractTweets\<close>\<close>

record tweet =
  tweet_id :: jsstring
  tweet_text :: jsstring
  timestamp :: jsstring
  author :: jsstring
  likes :: jsnum
  retweets :: jsnum
  replies :: jsnum
  isRetweet :: bool
  originalAuthor :: "jsstring option"

definition possibleSelectors :: "jsstring list" where
  \<open>possibleSelectors =
     [js ''[data-testid="tweet"]'',
      js ''article[data-testid="tweet"]'',
      js ''[data-testid="cellInnerDiv"] article'',
      js ''article[role="article"]'',
      js ''div[data-testid="tweet"]'',
      js ''[data-testid="tweetText"]'']\<close>

fun first_matching :: "document \<Rightarrow> jsstring list \<Rightarrow> element list option" where
  \<comment> \<open>the loop over the selectors, left at the first one with a match; None is \<^verbatim>\<open>null\<close>\<close>
  "first_matching doc [] = None"
| "first_matching doc (selector # rest) =
     (let elements = doc selector
      in if length elements > 0 then Some elements else first_matching doc rest)"

definition relative_here :: "jsstring \<Rightarrow> bool" where
  \<comment> \<open>\<^verbatim>\<open>\d+[hms]\<close> or one of the four Japanese markers, at the start of the string\<close>
  "relative_here s \<longleftrightarrow>
     (takeWhile isDigit s \<noteq> [] \<and>
        (case dropWhile isDigit s of [] \<Rightarrow> False | c # _ \<Rightarrow> c \<in> {0x68, 0x6D, 0x73}))
     \<or> take 3 s = [0x6642, 0x9593, 0x524D]
     \<or> take 2 s = [0x5206, 0x524D]
     \<or> take 1 s = [0x6642]
     \<or> take 1 s = [0x5206]"

fun relative_test :: "jsstring \<Rightarrow> bool" where
  \<comment> \<open>whether the pattern of the fallback scan matches anywhere in the text\<close>
  "relative_test [] = False"
| "relative_test (c # cs) = (relative_here (c # cs) \<or> relative_test cs)"

definition isTweetCandidate :: "element \<Rightarrow> bool" where
  "isTweetCandidate el =
     (let text = or_empty (textContent el)
      in length text > 20 \<and> length text < 1000 \<and>
         querySelector el (js ''input'') = None \<and>
         querySelector el (js ''button'') = None \<and>
         (0x40 \<in> set text \<or> relative_test text))"

definition uses_fallback :: "document \<Rightarrow> bool" where
  \<comment> \<open>\<^verbatim>\<open>!tweetElements || tweetElements.length === 0\<close>\<close>
  "uses_fallback doc =
     (case first_matching doc possibleSelectors of None \<Rightarrow> True | Some els \<Rightarrow> length els = 0)"

definition fallback_candidates :: "document \<Rightarrow> element list" where
  "fallback_candidates doc = filter isTweetCandidate (doc (js ''*''))"

definition select_elements :: "document \<Rightarrow> element list option" where
  \<comment> \<open>the elements to process; None is the early \<^verbatim>\<open>return []\<close>\<close>
  "select_elements doc =
     (if uses_fallback doc then
        (let tweetCandidates = fallback_candidates doc
         in if length tweetCandidates > 0 then Some (take 10 tweetCandidates) else None)
      else first_matching doc possibleSelectors)"

definition textSelectors :: "jsstring list" where
  \<open>textSelectors =
     [js ''[data-testid="tweetText"]'', js ''[lang] span'', js ''div[lang]'', js ''span[lang]'',
      js ''[dir="auto"]'']\<close>

fun text_from_selectors :: "element \<Rightarrow> jsstring list \<Rightarrow> jsstring option" where
  "text_from_selectors el [] = None"
| "text_from_selectors el (selector # rest) =
     (case querySelector el selector of
        None \<Rightarrow> text_from_selectors el rest
      | Some textEl \<Rightarrow>
          (case textContent textEl of
             None \<Rightarrow> text_from_selectors el rest
           | Some tc \<Rightarrow> if trim tc \<noteq> [] then Some (trim tc) else text_from_selectors el rest))"

definition extractTweetText :: "element \<Rightarrow> jsstring" where
  "extractTweetText el =
     (case text_from_selectors el textSelectors of
        Some t \<Rightarrow> t
      | None \<Rightarrow>
          (let fullText = or_empty (map_option trim (textContent el))
           in if length fullText > 500 then take 280 fullText @ js ''...'' else fullText))"

definition relative_match_here :: "jsstring \<Rightarrow> jsstring option" where
  \<comment> \<open>the five alternatives of the timestamp pattern, in their order, at the start of the
     string; the digits are the longest run, since a shorter one is followed by a digit\<close>
  "relative_match_here s =
     (let run = takeWhile isDigit s; rest = dropWhile isDigit s
      in if run = [] then None
         else if (case rest of [] \<Rightarrow> False | c # _ \<Rightarrow> c \<in> {0x68, 0x6D, 0x73}) then Some (run @ take 1 rest)
         else if take 3 rest = [0x6642, 0x9593, 0x524D] then Some (run @ take 3 rest)
         else if take 2 rest = [0x5206, 0x524D] then Some (run @ take 2 rest)
         else if take 1 rest = [0x6642] then Some (run @ take 1 rest)
         else if take 1 rest = [0x5206] then Some (run @ take 1 rest)
         else None)"

fun relative_match :: "jsstring \<Rightarrow> jsstring option" where
  \<comment> \<open>the text of the leftmost match\<close>
  "relative_match [] = None"
| "relative_match (c # cs) =
     (case relative_match_here (c # cs) of Some m \<Rightarrow> Some m | None \<Rightarrow> relative_match cs)"

definition extractTimestamp :: "jsstring \<Rightarrow> element \<Rightarrow> jsstring" where
  \<comment> \<open>the first argument is the current time as an ISO string\<close>
  "extractTimestamp nowIso el =
     (case querySelector el (js ''time'') of
        Some timeEl \<Rightarrow>
          (case getAttribute timeEl (js ''datetime'') of
             None \<Rightarrow> or_empty (textContent timeEl)
           | Some d \<Rightarrow> if d \<noteq> [] then d else or_empty (textContent timeEl))
      | None \<Rightarrow>
          (case relative_match (or_empty (textContent el)) of
             Some m \<Rightarrow> m
           | None \<Rightarrow> nowIso))"

definition authorSelectors :: "jsstring list" where
  \<open>authorSelectors =
     [js ''[data-testid="User-Name"] a[role="link"]'',
      js ''[data-testid="User-Names"] a[role="link"]'',
      js ''a[href^="/"]'',
      js ''[href^="/"][role="link"]'']\<close>

fun author_from_links :: "element \<Rightarrow> jsstring list \<Rightarrow> jsstring option" where
  "author_from_links el [] = None"
| "author_from_links el (selector # rest) =
     (case querySelector el selector of
        None \<Rightarrow> author_from_links el rest
      | Some authorEl \<Rightarrow>
          (case getAttribute authorEl (js ''href'') of
             None \<Rightarrow> author_from_links el rest
           | Some href \<Rightarrow>
               if href \<noteq> [] \<and> take 1 href = js ''/'' \<and> \<not> js_includes href (js ''/status/'')
               then Some (drop 1 href)
               else author_from_links el rest))"

fun handle_match :: "jsstring \<Rightarrow> jsstring option" where
  \<comment> \<open>group 1 of the leftmost match of \<^verbatim>\<open>/@([a-zA-Z0-9_]+)/\<close>\<close>
  "handle_match [] = None"
| "handle_match (c # cs) =
     (if c = 0x40 \<and> takeWhile isWordChar cs \<noteq> [] then Some (takeWhile isWordChar cs)
      else handle_match cs)"

definition extractAuthor :: "nat \<Rightarrow> element \<Rightarrow> jsstring" where
  "extractAuthor index el =
     (case author_from_links el authorSelectors of
        Some a \<Rightarrow> a
      | None \<Rightarrow>
          (case handle_match (or_empty (textContent el)) of
             Some u \<Rightarrow> u
           | None \<Rightarrow> js ''extracted_user_'' @ show_nat index))"

datatype engagement_type = Like | Retweet | Reply

fun testIds :: "engagement_type \<Rightarrow> jsstring list" where
  "testIds Like = [js ''like'', js ''favorite'']"
| "testIds Retweet = [js ''retweet'', js ''unretweet'']"
| "testIds Reply = [js ''reply'']"

fun engagement_from_buttons :: "element \<Rightarrow> jsstring list \<Rightarrow> jsnum option" where
  "engagement_from_buttons el [] = None"
| "engagement_from_buttons el (testId # rest) =
     (case querySelector el (js ''[data-testid=\"'' @ testId @ js ''\"] span'') of
        None \<Rightarrow> engagement_from_buttons el rest
      | Some engagementEl \<Rightarrow>
          (if or_empty (textContent engagementEl) \<noteq> [] then
             (let num = parseEngagement (or_empty (textContent engagementEl))
              in if js_positive num then Some num else engagement_from_buttons el rest)
           else engagement_from_buttons el rest))"

definition extractEngagement :: "element \<Rightarrow> engagement_type \<Rightarrow> jsnum" where
  "extractEngagement el type =
     (case engagement_from_buttons el (testIds type) of
        Some num \<Rightarrow> num
      | None \<Rightarrow>
          (case first_digits (or_empty (textContent el)) of
             None \<Rightarrow> Num 0
           | Some ds \<Rightarrow> parseInt ds))"

definition extract_element :: "(nat \<Rightarrow> clock_reading) \<Rightarrow> nat \<Rightarrow> element \<Rightarrow> tweet option" where
  \<comment> \<open>the body of the loop over the elements; None is its early \<^verbatim>\<open>return\<close>\<close>
  \<open>extract_element clock index el =
     (let text = extractTweetText el;
          timestamp = extractTimestamp (toISOString (clock index)) el;
          author = extractAuthor index el
      in if text = [] \<or> length text < 5 then None
         else Some \<lparr>
           tweet_id = js ''tweet_'' @ show_nat (Date_now (clock index)) @ js ''_'' @ show_nat index,
           tweet_text = text,
           timestamp = timestamp,
           author = author,
           likes = extractEngagement el Like,
           retweets = extractEngagement el Retweet,
           replies = extractEngagement el Reply,
           isRetweet = (querySelector el (js ''[data-testid="socialContext"]'') \<noteq> None),
           originalAuthor =
             (case querySelector el (js ''[data-testid="socialContext"] a'') of
                None \<Rightarrow> None
              | Some a \<Rightarrow> (case textContent a of None \<Rightarrow> None
                           | Some t \<Rightarrow> if t = [] then None else Some t))
         \<rparr>)\<close>

datatype js_error = Thrown jsstring

fun forEach_try ::
  "(nat \<Rightarrow> element \<Rightarrow> js_error + tweet option) \<Rightarrow> nat \<Rightarrow> element list \<Rightarrow> tweet list \<Rightarrow> tweet list"
where
  \<comment> \<open>\<^verbatim>\<open>tweetElements.forEach((element, index) => { try { body } catch (error) { log } })\<close>:
     a body that throws is logged and the loop goes on with the next element\<close>
  "forEach_try body index [] tweets = tweets"
| "forEach_try body index (el # rest) tweets =
     (case body index el of
        Inl error \<Rightarrow> forEach_try body (Suc index) rest tweets
      | Inr None \<Rightarrow> forEach_try body (Suc index) rest tweets
      | Inr (Some t) \<Rightarrow> forEach_try body (Suc index) rest (tweets @ [t]))"

definition extractTweets :: "document \<Rightarrow> (nat \<Rightarrow> clock_reading) \<Rightarrow> tweet list" where
  \<comment> \<open>no call made by the body throws on the page as modelled, so the body returns with \<open>Inr\<close>\<close>
  "extractTweets doc clock =
     (case select_elements doc of
        None \<Rightarrow> []
      | Some tweetElements \<Rightarrow>
          forEach_try (\<lambda>index el. Inr (extract_element clock index el)) 0 tweetElements [])"

section \<open>The collection loop: \<^verbatim>\<open>TwitterService.collectTweetsNaturally\<close>\<close>

fun add_new :: "nat \<Rightarrow> tweet list \<Rightarrow> tweet list \<Rightarrow> tweet list" where
  \<comment> \<open>the inner loop over the tweets of one page\<close>
  "add_new maxTweets tweets [] = tweets"
| "add_new maxTweets tweets (t # pageTweets) =
     add_new maxTweets
       (if find (\<lambda>u. tweet_id u = tweet_id t) tweets = None \<and> length tweets < maxTweets
        then tweets @ [t] else tweets)
       pageTweets"

function collect_loop ::
  "(nat \<Rightarrow> tweet list) \<Rightarrow> nat \<Rightarrow> nat \<Rightarrow> nat \<Rightarrow> tweet list \<Rightarrow> nat \<Rightarrow> tweet list \<times> nat"
where
  "collect_loop pages maxTweets maxScrolls i tweets scrollCount =
     (if i < maxScrolls \<and> length tweets < maxTweets
      then collect_loop pages maxTweets maxScrolls (Suc i)
             (add_new maxTweets tweets (pages i)) (Suc scrollCount)
      else (tweets, scrollCount))"
  by pat_completeness auto
termination
  by (relation "measure (\<lambda>(pages, maxTweets, maxScrolls, i, tweets, scrollCount). maxScrolls - i)") auto

definition maxScrolls_of :: "nat \<Rightarrow> nat" where
  \<comment> \<open>\<^verbatim>\<open>Math.ceil(maxTweets / 3)\<close>\<close>
  "maxScrolls_of maxTweets = nat \<lceil>(of_nat maxTweets :: rat) / 3\<rceil>"

definition collect_tweets :: "(nat \<Rightarrow> tweet list) \<Rightarrow> nat \<Rightarrow> tweet list \<times> nat" where
  \<comment> \<open>the loop of \<open>collectTweetsNaturally\<close>, given what the i-th call of \<open>extractTweets\<close>
     returns; the result is the list collected and \<^verbatim>\<open>scrollCount\<close>. The target count is
     a count, a natural number.\<close>
  "collect_tweets pages maxTweets =
     collect_loop pages maxTweets (maxScrolls_of maxTweets) 0 [] 0"

definition collectTweetsNaturally ::
  "(nat \<Rightarrow> document) \<Rightarrow> (nat \<Rightarrow> nat \<Rightarrow> clock_reading) \<Rightarrow> nat option \<Rightarrow> tweet list \<times> nat"
where
  \<comment> \<open>the page after the i-th scroll and the clock during the i-th extraction are given;
     \<^verbatim>\<open>maxTweets\<close> defaults to 20\<close>
  "collectTweetsNaturally snapshots clocks maxTweets =
     collect_tweets (\<lambda>i. extractTweets (snapshots i) (clocks i))
       (case maxTweets of None \<Rightarrow> 20 | Some m \<Rightarrow> m)"

fun dedup_by_id :: "tweet list \<Rightarrow> tweet list \<Rightarrow> tweet list" where
  \<comment> \<open>the first instance of every id, in order of first appearance, after those of \<open>seen\<close>\<close>
  "dedup_by_id seen [] = seen"
| "dedup_by_id seen (t # ts) =
     dedup_by_id (if tweet_id t \<in> tweet_id ` set seen then seen else seen @ [t]) ts"

section \<open>The tabular writer: \<^verbatim>\<open>SheetsService.exportTweetsToSheets\<close>\<close>

text \<open>
  The spreadsheet is the state. A worksheet is the list of its rows, row 1 first; a cell a
  row does not reach is blank. The service is modelled as far as the export uses it, and its
  calls are taken to succeed.
\<close>

datatype cell = Str jsstring | Number jsnum

type_synonym row = "cell list"
type_synonym worksheet = "row list"
type_synonym spreadsheet = "jsstring \<Rightarrow> worksheet option"

definition ensureWorksheetExists :: "spreadsheet \<Rightarrow> jsstring \<Rightarrow> spreadsheet" where
  "ensureWorksheetExists sp worksheetName =
     (case sp worksheetName of None \<Rightarrow> sp(worksheetName \<mapsto> []) | Some ws \<Rightarrow> sp)"

definition cell_blank :: "cell \<Rightarrow> bool" where
  "cell_blank c \<longleftrightarrow> c = Str []"

definition values_get_A :: "worksheet \<Rightarrow> row list" where
  \<comment> \<open>\<^verbatim>\<open>spreadsheets.values.get\<close> on the range \<^verbatim>\<open>A:A\<close>, as the service answers it: column A
     of every row down to the last row whose cell there is not blank. Trailing empty rows
     are left out; a blank cell above that row gives an empty row.\<close>
  "values_get_A ws =
     rev (dropWhile (\<lambda>r. r = []) (rev (map (\<lambda>r. filter (\<lambda>c. \<not> cell_blank c) (take 1 r)) ws)))"

definition values_update :: "worksheet \<Rightarrow> nat \<Rightarrow> row list \<Rightarrow> worksheet" where
  \<comment> \<open>\<^verbatim>\<open>spreadsheets.values.update\<close> on the rows from \<open>startRow\<close> on: every given row takes
     the place of the first cells of the sheet's row, the other rows stay\<close>
  "values_update ws startRow rows =
     (let padded = ws @ replicate (startRow - 1 + length rows - length ws) []
      in take (startRow - 1) padded
         @ map (\<lambda>(new, old). new @ drop (length new) old) (zip rows (drop (startRow - 1) padded))
         @ drop (startRow - 1 + length rows) padded)"

definition headers :: row where
  \<comment> \<open>the ten Japanese column titles, as UTF-16 code units\<close>
  "headers =
     [Str [0x30BF, 0x30A4, 0x30E0, 0x30B9, 0x30BF, 0x30F3, 0x30D7],
      Str [0x30E6, 0x30FC, 0x30B6, 0x30FC, 0x540D],
      Str [0x30C4, 0x30A4, 0x30FC, 0x30C8, 0x5185, 0x5BB9],
      Str [0x3044, 0x3044, 0x306D, 0x6570],
      Str [0x30EA, 0x30C4, 0x30A4, 0x30FC, 0x30C8, 0x6570],
      Str [0x8FD4, 0x4FE1, 0x6570],
      Str [0x30EA, 0x30C4, 0x30A4, 0x30FC, 0x30C8, 0x003F],
      Str [0x5143, 0x30E6, 0x30FC, 0x30B6, 0x30FC],
      Str (js ''URL''),
      Str [0x53CE, 0x96C6, 0x65E5, 0x6642]]"

definition tweet_row :: "jsstring \<Rightarrow> tweet \<Rightarrow> row" where
  \<comment> \<open>one element of \<^verbatim>\<open>dataRows\<close>; the first argument is the current time as an ISO string\<close>
  "tweet_row nowIso t =
     [Str (timestamp t),
      Str (author t),
      Str (tweet_text t),
      Number (likes t),
      Number (retweets t),
      Number (replies t),
      Str (if isRetweet t then [0x306F, 0x3044] else [0x3044, 0x3044, 0x3048]),
      Str (or_empty (originalAuthor t)),
      Str (js ''https://x.com/'' @ author t),
      Str nowIso]"

datatype export_error = NoTweetData

record write_result =
  range_A1 :: jsstring  \<comment> \<open>\<^verbatim>\<open>range\<close>\<close>
  values_written :: "row list"  \<comment> \<open>\<^verbatim>\<open>values\<close>\<close>
  startRow :: nat
  newDataCount :: nat
  totalRows :: nat
  isFirstData :: bool

definition target_worksheet :: "jsstring option \<Rightarrow> jsstring \<Rightarrow> jsstring" where
  \<comment> \<open>\<^verbatim>\<open>worksheetName || today\<close>\<close>
  "target_worksheet worksheetName today =
     (case worksheetName of None \<Rightarrow> today | Some w \<Rightarrow> if w = [] then today else w)"

definition worksheet_rows :: "spreadsheet \<Rightarrow> jsstring \<Rightarrow> worksheet" where
  "worksheet_rows sp name = (case sp name of None \<Rightarrow> [] | Some ws \<Rightarrow> ws)"

definition existingRowCount_of :: "worksheet \<Rightarrow> nat" where
  \<comment> \<open>\<^verbatim>\<open>existingData.data.values?.length || 0\<close>\<close>
  "existingRowCount_of ws = length (values_get_A ws)"

definition data_rows :: "(nat \<Rightarrow> jsstring) \<Rightarrow> tweet list \<Rightarrow> row list" where
  \<comment> \<open>\<^verbatim>\<open>dataRows\<close>; \<open>nowIso k\<close> is the current time when row \<open>k\<close> is built\<close>
  "data_rows nowIso batch = map (\<lambda>(k, t). tweet_row (nowIso k) t) (enumerate 0 batch)"

definition exportTweetsToSheets ::
  "spreadsheet \<Rightarrow> tweet list \<Rightarrow> jsstring option \<Rightarrow> jsstring \<Rightarrow> (nat \<Rightarrow> jsstring)
     \<Rightarrow> export_error + spreadsheet \<times> write_result"
where
  \<comment> \<open>\<open>today\<close> is the current date\<close>
  "exportTweetsToSheets sp batch worksheetName today nowIso =
     (if batch = [] then Inl NoTweetData
      else
        let targetWorksheet = target_worksheet worksheetName today;
            sp1 = ensureWorksheetExists sp targetWorksheet;
            ws = worksheet_rows sp1 targetWorksheet;
            existingRowCount = existingRowCount_of ws;
            isFirst = (existingRowCount = 0);
            dataRows = data_rows nowIso batch;
            start = (if isFirst then 1 else existingRowCount + 1);
            rows = (if isFirst then headers # dataRows else dataRows);
            range = targetWorksheet @ js ''!A'' @ show_nat start @ js '':J''
                      @ show_nat (start + length rows - 1)
        in Inr (sp1(targetWorksheet \<mapsto> values_update ws start rows),
                \<lparr>range_A1 = range, values_written = rows, startRow = start,
                 newDataCount = length batch,
                 totalRows =
                   (if isFirst then length batch + 1 else existingRowCount + length batch),
                 isFirstData = isFirst\<rparr>))"

section \<open>The profile: \<^verbatim>\<open>TwitterService.getUserProfile\<close>\<close>

record user_profile =
  username :: jsstring
  displayName :: jsstring
  bio :: jsstring
  followers :: jsnum
  following :: jsnum
  verified :: bool
  tweets :: jsnum

definition getTextContent :: "document \<Rightarrow> jsstring \<Rightarrow> jsstring" where
  "getTextContent doc selector =
     (case document_querySelector doc selector of
        None \<Rightarrow> []
      | Some el \<Rightarrow> or_empty (map_option trim (textContent el)))"

fun comma_digits :: "jsstring \<Rightarrow> jsstring option" where
  \<comment> \<open>\<^verbatim>\<open>text.match(/[\d,]+/)\<close>\<close>
  "comma_digits [] = None"
| "comma_digits (c # cs) =
     (if isDigitOrComma c then Some (takeWhile isDigitOrComma (c # cs)) else comma_digits cs)"

definition getNumber :: "jsstring \<Rightarrow> jsnum" where
  "getNumber text =
     (case comma_digits text of
        None \<Rightarrow> Num 0
      | Some m \<Rightarrow> parseInt (filter (\<lambda>c. c \<noteq> 0x2C) m))"

fun remove_first_at :: "jsstring \<Rightarrow> jsstring" where
  \<comment> \<open>\<^verbatim>\<open>.replace('@', '')\<close>\<close>
  "remove_first_at [] = []"
| "remove_first_at (c # cs) = (if c = 0x40 then cs else c # remove_first_at cs)"

definition getUserProfile :: "document \<Rightarrow> user_profile" where
  \<comment> \<open>the \<^verbatim>\<open>profile\<close> object evaluated in the page, from which the response text is built\<close>
  \<open>getUserProfile doc =
     (let displayName = getTextContent doc (js ''[data-testid="UserName"] span'');
          username = remove_first_at (getTextContent doc (js ''[data-testid="UserName"] [dir="ltr"]''));
          bio = getTextContent doc (js ''[data-testid="UserDescription"]'');
          followingElement = document_querySelector doc (js ''a[href$="/following"] span'');
          followersElement = document_querySelector doc
            (js ''a[href$="/verified_followers"] span, a[href$="/followers"] span'');
          following = (case followingElement of None \<Rightarrow> Num 0
                       | Some el \<Rightarrow> getNumber (or_empty (textContent el)));
          followers = (case followersElement of None \<Rightarrow> Num 0
                       | Some el \<Rightarrow> getNumber (or_empty (textContent el)))
      in \<lparr>username = username, displayName = displayName, bio = bio,
          followers = followers, following = following,
          verified = (document_querySelector doc (js ''[data-testid="icon-verified"]'') \<noteq> None),
          tweets = Num 0\<rparr>)\<close>

section \<open>Notions used in the statements\<close>


fun kept :: "js_error + tweet option \<Rightarrow> tweet list" where
  \<comment> \<open>what one run of the loop body adds to the list\<close>
  "kept (Inl error) = []"
| "kept (Inr None) = []"
| "kept (Inr (Some t)) = [t]"


section \<open>Concrete inputs\<close>

definition sample_tweet :: "string \<Rightarrow> string \<Rightarrow> string \<Rightarrow> tweet" where
  "sample_tweet i ts tx =
     \<lparr>tweet_id = js i, tweet_text = js tx, timestamp = js ts, author = js ''alice'',
      likes = Num 1, retweets = Num 0, replies = Num 0, isRetweet = False,
      originalAuthor = None\<rparr>"


definition batch_A :: "tweet list" where
  \<comment> \<open>three records; the time element of the last one had neither a \<^verbatim>\<open>datetime\<close> nor a
     text, so its timestamp is the empty string\<close>
  "batch_A =
     [sample_tweet ''t_0'' ''3h'' ''first'', sample_tweet ''t_1'' ''2h'' ''second'',
      sample_tweet ''t_2'' [] ''third'']"

definition batch_B :: "tweet list" where
  "batch_B = [sample_tweet ''t_3'' ''5m'' ''fourth'', sample_tweet ''t_4'' ''1m'' ''fifth'']"

definition sample_now :: "nat \<Rightarrow> jsstring" where
  "sample_now k = js ''2025-06-15T10:00:00.000Z''"

definition plain :: "jsstring \<Rightarrow> element" where
  \<comment> \<open>an element with a text, no attribute and no descendant\<close>
  "plain t = Element (Some t) (\<lambda>a. None) (\<lambda>selector. [])"

definition sample_clock :: "nat \<Rightarrow> clock_reading" where
  "sample_clock index =
     \<lparr>Date_now = 1750, toISOString = js ''2025-06-15T10:00:00.000Z''\<rparr>"

definition sample_doc :: document where
  \<comment> \<open>three elements under the first container selector, the second with a text of 3\<close>
  \<open>sample_doc selector =
     (if selector = js ''[data-testid="tweet"]''
      then [plain (js ''hello world''), plain (js ''hey''), plain (js ''third post 7'')]
      else [])\<close>



definition long_text :: jsstring where
  "long_text = replicate 600 0x61"

definition long_tweet_element :: element where
  \<comment> \<open>a container whose \<^verbatim>\<open>tweetText\<close> element holds 600 code units\<close>
  \<open>long_tweet_element =
     Element (Some long_text) (\<lambda>a. None)
       (\<lambda>selector. if selector = js ''[data-testid="tweetText"]'' then [plain long_text] else [])\<close>


section \<open>Properties of \<^verbatim>\<open>parseEngagement\<close>\<close>

lemmas count_char_defs = isCountChar_def isSuffixChar_def isDigitOrComma_def isDigit_def isSpace_def

lemmas parse_defs = parseEngagement_def cleanText_def count_match_here_def js_def
  count_char_defs parseFloat_def parseInt_def toUpperCase_def digits_value_def digit_val_def
  js_times_def Math_floor_def Let_def

lemma count_match_None_iff: "count_match s = None \<longleftrightarrow> (\<forall>c\<in>set s. \<not> isDigitOrComma c)"
  by (induction s) auto

lemma first_digits_None_iff: "first_digits s = None \<longleftrightarrow> (\<forall>c\<in>set s. \<not> isDigit c)"
  by (induction s) auto

lemma fallback_finds_no_digit:
  assumes "count_match (cleanText t) = None"
  shows "first_digits t = None"
proof -
  have "\<not> isDigit c" if "c \<in> set t" for c
  proof
    assume d: "isDigit c"
    then have "c \<in> set (cleanText t)" using that by (simp add: cleanText_def isCountChar_def)
    with assms have "\<not> isDigitOrComma c" by (simp add: count_match_None_iff)
    with d show False by (simp add: isDigitOrComma_def)
  qed
  then show ?thesis by (simp add: first_digits_None_iff)
qed

lemma parseEngagement_fallback_zero:
  "count_match (cleanText t) = None \<Longrightarrow> parseEngagement t = Num 0"
  by (simp add: parseEngagement_def fallback_finds_no_digit)


lemma parseFloat_cases: "parseFloat s = NaN \<or> (\<exists>q\<ge>0. parseFloat s = Num q)"
  by (auto simp: parseFloat_def Let_def split: list.splits)

lemma first_digits_parseInt:
  "first_digits t = Some ds \<Longrightarrow> \<exists>n::nat. parseInt ds = Num (of_nat n)"
  by (induction t) (auto simp: parseInt_def Let_def split: if_splits)

lemma floor_scaled:
  assumes "x = NaN \<or> (\<exists>q\<ge>0. x = Num q)" and "0 \<le> k"
  shows "Math_floor (js_times x k) = NaN \<or> (\<exists>n::nat. Math_floor (js_times x k) = Num (of_nat n))"
proof -
  from assms(1) show ?thesis
  proof
    assume "x = NaN" then show ?thesis by (simp add: js_times_def Math_floor_def)
  next
    assume "\<exists>q\<ge>0. x = Num q"
    then obtain q where q: "0 \<le> q" "x = Num q" by blast
    then have "0 \<le> \<lfloor>q * k\<rfloor>" using assms(2) by simp
    then have "(of_int \<lfloor>q * k\<rfloor> :: rat) = of_nat (nat \<lfloor>q * k\<rfloor>)" by simp
    then show ?thesis using q by (auto simp: js_times_def Math_floor_def)
  qed
qed

lemma parseEngagement_integer:
  "parseEngagement t = NaN \<or> (\<exists>n::nat. parseEngagement t = Num (of_nat n))"
proof (cases "t = []")
  case True
  then have "parseEngagement t = Num (of_nat 0)" by (simp add: parseEngagement_def)
  then show ?thesis by blast
next
  case ne: False
  show ?thesis
  proof (cases "count_match (cleanText t)")
    case None
    then have "parseEngagement t = Num (of_nat 0)" by (simp add: parseEngagement_fallback_zero)
    then show ?thesis by blast
  next
    case (Some g)
    obtain g1 g2 where g: "g = (g1, g2)" by (cases g)
    let ?x = "parseFloat (filter (\<lambda>c. c \<noteq> 0x2C) g1)"
    have x: "?x = NaN \<or> (\<exists>q\<ge>0. ?x = Num q)" by (rule parseFloat_cases)
    have t1: "js_times ?x 1 = ?x" by (simp add: js_times_def split: jsnum.splits)
    note f = floor_scaled [OF x]
    from f [of 1] f [of 1000] f [of 1000000] f [of 1000000000]
    show ?thesis using Some g ne by (simp add: parseEngagement_def Let_def t1)
  qed
qed






text \<open>
  Claim C9 says that the decoding gives a non-negative integer, never NaN, on every string,
  a string of commas included. On a single comma the pattern matches, its first group holds
  no digit, and the result is NaN.
\<close>

theorem parseEngagement_comma_NaN:
  "parseEngagement (js '','') = NaN"
  by (simp add: parse_defs)

section \<open>Properties of the collection loop\<close>




lemma dedup_by_id_ids:
  "tweet_id ` set (dedup_by_id seen xs) = tweet_id ` set seen \<union> tweet_id ` set xs"
  by (induction xs arbitrary: seen) auto











section \<open>Properties of the tabular writer\<close>

lemmas export_defs = exportTweetsToSheets_def target_worksheet_def ensureWorksheetExists_def
  worksheet_rows_def existingRowCount_of_def data_rows_def Let_def

lemma worksheet_rows_ensure:
  "worksheet_rows (ensureWorksheetExists sp name) name = worksheet_rows sp name"
  by (simp add: worksheet_rows_def ensureWorksheetExists_def split: option.splits)

lemma length_data_rows: "length (data_rows nowIso batch) = length batch"
  by (simp add: data_rows_def)



lemma digits_value_snoc: "digits_value (ds @ [c]) = 10 * digits_value ds + digit_val c"
  by (simp add: digits_value_def)

lemma digit_val_of_nat: "k < 10 \<Longrightarrow> digit_val (of_nat (48 + k)) = k"
  by (simp add: digit_val_def unat_word_ariths unat_of_nat)

lemma show_digits_value: "n < fuel \<Longrightarrow> digits_value (show_digits fuel n) = n"
proof (induction fuel arbitrary: n)
  case 0
  then show ?case by simp
next
  case (Suc fuel)
  show ?case
  proof (cases "n < 10")
    case True
    then show ?thesis using digit_val_of_nat [of n] by (simp add: digits_value_def)
  next
    case False
    then have "n div 10 < fuel" using Suc.prems by simp
    then have "digits_value (show_digits fuel (n div 10)) = n div 10" by (rule Suc.IH)
    then show ?thesis using False digit_val_of_nat [of "n mod 10"]
      by (simp add: digits_value_snoc)
  qed
qed

lemma show_nat_value: "digits_value (show_nat n) = n"
  unfolding show_nat_def by (rule show_digits_value) simp


lemma first_export:
  "exportTweetsToSheets Map.empty batch_A (Some (js ''S'')) (js ''2025-06-15'') sample_now =
     Inr (Map.empty(js ''S'' \<mapsto> headers # data_rows sample_now batch_A),
          \<lparr>range_A1 = js ''S!A1:J4'', values_written = headers # data_rows sample_now batch_A,
           startRow = 1, newDataCount = 3, totalRows = 4, isFirstData = True\<rparr>)"
  by (simp add: export_defs values_get_A_def values_update_def batch_A_def js_def
      show_nat_def)

lemma first_export_column_A:
  "existingRowCount_of (headers # data_rows sample_now batch_A) = 3"
  by (simp add: existingRowCount_of_def values_get_A_def headers_def data_rows_def
      tweet_row_def batch_A_def sample_tweet_def cell_blank_def js_def)

lemma second_export:
  "exportTweetsToSheets (Map.empty(js ''S'' \<mapsto> headers # data_rows sample_now batch_A))
       batch_B (Some (js ''S'')) (js ''2025-06-15'') sample_now =
     Inr (Map.empty(js ''S'' \<mapsto>
            values_update (headers # data_rows sample_now batch_A) 4 (data_rows sample_now batch_B)),
          \<lparr>range_A1 = js ''S!A4:J5'', values_written = data_rows sample_now batch_B,
           startRow = 4, newDataCount = 2, totalRows = 5, isFirstData = False\<rparr>)"
  by (simp add: exportTweetsToSheets_def target_worksheet_def ensureWorksheetExists_def
      worksheet_rows_def Let_def first_export_column_A length_data_rows batch_B_def js_def show_nat_def)


lemma values_get_A_last_filled:
  assumes "filter (\<lambda>c. \<not> cell_blank c) (take 1 l) \<noteq> []"
  shows "existingRowCount_of (ys @ [l]) = length (ys @ [l])"
  using assms by (simp add: existingRowCount_of_def values_get_A_def)

lemma zip_blank_rows:
  "map (\<lambda>(new, old). new @ drop (length new) old) (zip rows (replicate (length rows) [])) = rows"
  by (induction rows) simp_all

lemma values_update_append: "values_update ws (length ws + 1) rows = ws @ rows"
  by (simp add: values_update_def zip_blank_rows)

lemma data_rows_last:
  assumes "batch \<noteq> []"
  shows "\<exists>iso. last (data_rows nowIso batch) = tweet_row iso (last batch)"
proof -
  have "data_rows nowIso batch \<noteq> []" using assms by (metis length_data_rows length_0_conv)
  then have "last (data_rows nowIso batch) = data_rows nowIso batch ! (length batch - 1)"
    by (simp add: last_conv_nth length_data_rows)
  also have "\<dots> = tweet_row (nowIso (length batch - 1)) (batch ! (length batch - 1))"
    using assms by (simp add: data_rows_def nth_enumerate_eq)
  also have "batch ! (length batch - 1) = last batch"
    using assms by (simp add: last_conv_nth)
  finally show ?thesis by blast
qed

text \<open>
  When column A counts every row of the worksheet and the last record of the batch has a
  timestamp, an export appends its rows below the existing ones, and column A counts every
  row again: sequential exports of such batches write adjacent ranges and leave the earlier
  rows as they were.
\<close>

lemma export_appends:
  assumes ne: "batch \<noteq> []"
    and target: "target = target_worksheet worksheetName today"
    and ws: "ws = worksheet_rows sp target"
    and dense: "existingRowCount_of ws = length ws"
    and stamp: "timestamp (last batch) \<noteq> []"
  shows "\<exists>sp' r. exportTweetsToSheets sp batch worksheetName today nowIso = Inr (sp', r) \<and>
           startRow r = length ws + 1 \<and>
           worksheet_rows sp' target = ws @ values_written r \<and>
           existingRowCount_of (worksheet_rows sp' target) = length (worksheet_rows sp' target)"
proof -
  define rows where
    "rows = (if length ws = 0 then headers # data_rows nowIso batch else data_rows nowIso batch)"
  obtain iso where iso: "last (data_rows nowIso batch) = tweet_row iso (last batch)"
    using data_rows_last [OF ne] by blast
  have dne: "data_rows nowIso batch \<noteq> []" using ne by (metis length_data_rows length_0_conv)
  have rne: "rows \<noteq> []" using dne by (simp add: rows_def)
  have lastrow: "last rows = tweet_row iso (last batch)" using dne iso by (simp add: rows_def)
  have filled: "filter (\<lambda>c. \<not> cell_blank c) (take 1 (last rows)) \<noteq> []"
    unfolding lastrow using stamp by (simp add: tweet_row_def cell_blank_def)
  have split: "ws @ rows = (ws @ butlast rows) @ [last rows]"
    using append_butlast_last_id [OF rne] by simp
  have dense': "existingRowCount_of (ws @ rows) = length (ws @ rows)"
    unfolding split by (rule values_get_A_last_filled [OF filled])
  have upd: "values_update ws (Suc (length ws)) rows = ws @ rows"
    using values_update_append [of ws rows] by simp
  have start: "(if length ws = 0 then 1 else length ws + 1) = Suc (length ws)" by simp
  have res: "exportTweetsToSheets sp batch worksheetName today nowIso =
     Inr ((ensureWorksheetExists sp target)(target \<mapsto> ws @ rows),
          \<lparr>range_A1 = target @ js ''!A'' @ show_nat (Suc (length ws)) @ js '':J''
                      @ show_nat (Suc (length ws) + length rows - 1),
           values_written = rows, startRow = Suc (length ws),
           newDataCount = length batch,
           totalRows = (if length ws = 0 then length batch + 1 else length ws + length batch),
           isFirstData = (length ws = 0)\<rparr>)"
    unfolding exportTweetsToSheets_def Let_def target [symmetric] worksheet_rows_ensure
      ws [symmetric] dense start rows_def [symmetric] upd
    using ne by simp
  have rows': "worksheet_rows ((ensureWorksheetExists sp target)(target \<mapsto> ws @ rows)) target
      = ws @ rows"
    by (simp add: worksheet_rows_def)
  show ?thesis
    unfolding res
    apply (intro exI conjI)
       apply (rule refl)
      apply (simp only: write_result.simps Suc_eq_plus1)
     apply (simp only: rows' write_result.simps)
    apply (simp only: rows' dense')
    done
qed

text \<open>
  Claim C2 says that batch A (three records) written to an empty worksheet takes rows 1 to
  4, that batch B (two records) written next takes rows 5 and 6, and that rows 1 to 4 stay
  as they were. The row count is read from column A, which holds the timestamp. With the
  last record of batch A carrying an empty timestamp, the first export writes rows 1 to 4,
  the count read by the second export is 3, and the second export writes rows 4 and 5:
  row 4 no longer holds the third record of batch A.
\<close>

theorem sequential_export_overwrites_row:
  "\<exists>sp1 r1 sp2 r2.
     exportTweetsToSheets Map.empty batch_A (Some (js ''S'')) (js ''2025-06-15'') sample_now
       = Inr (sp1, r1) \<and>
     exportTweetsToSheets sp1 batch_B (Some (js ''S'')) (js ''2025-06-15'') sample_now
       = Inr (sp2, r2) \<and>
     range_A1 r1 = js ''S!A1:J4'' \<and> startRow r1 = 1 \<and> length (values_written r1) = 4 \<and>
     range_A1 r2 = js ''S!A4:J5'' \<and> startRow r2 = 4 \<and> length (values_written r2) = 2 \<and>
     worksheet_rows sp1 (js ''S'') ! 3 = tweet_row (sample_now 2) (batch_A ! 2) \<and>
     worksheet_rows sp2 (js ''S'') ! 3 = tweet_row (sample_now 0) (batch_B ! 0) \<and>
     worksheet_rows sp2 (js ''S'') ! 3 \<noteq> worksheet_rows sp1 (js ''S'') ! 3"
proof -
  let ?sp1 = "Map.empty(js ''S'' \<mapsto> headers # data_rows sample_now batch_A)"
  let ?sp2 = "Map.empty(js ''S'' \<mapsto>
            values_update (headers # data_rows sample_now batch_A) 4 (data_rows sample_now batch_B))"
  have w1: "worksheet_rows ?sp1 (js ''S'') ! 3 = tweet_row (sample_now 2) (batch_A ! 2)"
    by (simp add: worksheet_rows_def data_rows_def batch_A_def sample_now_def)
  have w2: "worksheet_rows ?sp2 (js ''S'') ! 3 = tweet_row (sample_now 0) (batch_B ! 0)"
    by (simp add: worksheet_rows_def values_update_def data_rows_def batch_A_def batch_B_def
        tweet_row_def sample_now_def)
  have neq: "tweet_row (sample_now 0) (batch_B ! 0) \<noteq> tweet_row (sample_now 2) (batch_A ! 2)"
    by (simp add: tweet_row_def batch_A_def batch_B_def sample_tweet_def js_def)
  have l1: "length (headers # data_rows sample_now batch_A) = 4"
    by (simp add: length_data_rows batch_A_def)
  have l2: "length (data_rows sample_now batch_B) = 2"
    by (simp add: length_data_rows batch_B_def)
  show ?thesis
    apply (rule exI [of _ ?sp1])
    apply (rule exI)
    apply (rule exI [of _ ?sp2])
    apply (rule exI)
    apply (intro conjI)
              apply (rule first_export)
             apply (rule second_export)
            apply (simp_all only: write_result.simps w1 w2 l1 l2)
    apply (rule neq)
    done
qed

section \<open>Properties of the profile retrieval\<close>

text \<open>
  Claim C10. Whatever the page holds, the \<open>tweets\<close> field of the profile that
  \<open>getUserProfile\<close> builds is 0: it is a constant, not read from the page.
\<close>

theorem getUserProfile_tweets_zero:
  "tweets (getUserProfile doc) = Num 0"
  by (simp add: getUserProfile_def Let_def)

section \<open>Properties of the extraction engine\<close>

lemma forEach_try_kept:
  "forEach_try body index els acc =
     acc @ concat (map (\<lambda>(i, el). kept (body i el)) (enumerate index els))"
proof (induction els arbitrary: index acc)
  case Nil
  show ?case by simp
next
  case (Cons el els)
  show ?case
  proof (cases "body index el")
    case (Inl error)
    then show ?thesis using Cons.IH [of "Suc index" acc] by simp
  next
    case (Inr r)
    then show ?thesis
      using Cons.IH [of "Suc index" acc] Cons.IH [of "Suc index" "acc @ [the r]"]
      by (cases r) simp_all
  qed
qed


lemma extract_element_text:
  assumes "extract_element clock index el = Some t"
  shows "tweet_text t = extractTweetText el" and "5 \<le> length (tweet_text t)"
    and "tweet_text t \<noteq> []"
  using assms by (auto simp: extract_element_def Let_def split: if_splits)

lemma extract_element_short:
  "extractTweetText el = [] \<or> length (extractTweetText el) < 5 \<Longrightarrow>
     extract_element clock index el = None"
  by (auto simp: extract_element_def Let_def)

lemma extractTweets_map_filter:
  "extractTweets doc clock =
     List.map_filter (\<lambda>(i, el). extract_element clock i el)
       (enumerate 0 (case select_elements doc of None \<Rightarrow> [] | Some els \<Rightarrow> els))"
proof -
  have "concat (map (\<lambda>(i, el). kept (Inr (extract_element clock i el))) ps) =
          List.map_filter (\<lambda>(i, el). extract_element clock i el) ps" for ps
  proof (induction ps)
    case Nil
    show ?case by (simp add: List.map_filter_simps)
  next
    case (Cons p ps)
    obtain i el where p: "p = (i, el)" by (cases p)
    show ?case using Cons.IH
      by (cases "extract_element clock i el") (simp_all add: p List.map_filter_simps)
  qed
  then show ?thesis
    by (simp add: extractTweets_def forEach_try_kept List.map_filter_simps split: option.splits)
qed

text \<open>
  Claim C4. Every tweet that \<open>extractTweets\<close> returns has a text that is not empty and
  has at least 5 code units. An element whose resolved text is empty or shorter than 5 makes
  the loop body return without a tweet, and the list returned holds exactly the tweets of the
  bodies that did not return early, so such an element leaves nothing in it.
\<close>

theorem extractTweets_min_length:
  "(\<forall>t\<in>set (extractTweets doc clock). tweet_text t \<noteq> [] \<and> 5 \<le> length (tweet_text t)) \<and>
   (extractTweetText el = [] \<or> length (extractTweetText el) < 5 \<longrightarrow>
      extract_element clock index el = None) \<and>
   extractTweets doc clock =
     List.map_filter (\<lambda>(i, el). extract_element clock i el)
       (enumerate 0 (case select_elements doc of None \<Rightarrow> [] | Some els \<Rightarrow> els))"
proof -
  have a: "\<forall>t\<in>set (extractTweets doc clock). tweet_text t \<noteq> [] \<and> 5 \<le> length (tweet_text t)"
  proof
    fix t assume "t \<in> set (extractTweets doc clock)"
    then obtain i el where "extract_element clock i el = Some t"
      unfolding extractTweets_map_filter by (auto simp: List.map_filter_def)
    then show "tweet_text t \<noteq> [] \<and> 5 \<le> length (tweet_text t)"
      using extract_element_text by blast
  qed
  have b: "extractTweetText el = [] \<or> length (extractTweetText el) < 5 \<longrightarrow>
      extract_element clock index el = None"
    using extract_element_short by blast
  from a b extractTweets_map_filter show ?thesis by blast
qed

lemma sample_doc_run:
  "map tweet_text (extractTweets sample_doc sample_clock) = [js ''hello world'', js ''third post 7'']"
  by code_simp

theorem extractTweets_min_length_witness:
  "map tweet_text (extractTweets sample_doc sample_clock) = [js ''hello world'', js ''third post 7''] \<and>
   list_all (\<lambda>t. 5 \<le> length (tweet_text t)) (extractTweets sample_doc sample_clock) \<and>
   length (extractTweetText (plain (js ''hey''))) < 5 \<and>
   extract_element sample_clock 1 (plain (js ''hey'')) = None"
proof -
  have short: "length (extractTweetText (plain (js ''hey''))) < 5"
    by code_simp
  note spec = extractTweets_min_length [of sample_doc sample_clock "plain (js ''hey'')" 1]
  from spec have "\<forall>t\<in>set (extractTweets sample_doc sample_clock). 5 \<le> length (tweet_text t)"
    by blast
  then have all: "list_all (\<lambda>t. 5 \<le> length (tweet_text t)) (extractTweets sample_doc sample_clock)"
    by (simp add: list_all_iff)
  from spec short have none: "extract_element sample_clock 1 (plain (js ''hey'')) = None"
    by blast
  from sample_doc_run all short none show ?thesis by blast
qed



section \<open>Properties of the container selection\<close>





















section \<open>Properties of the text extraction\<close>

lemma text_from_selectors_Some:
  "text_from_selectors el selectors = Some t \<Longrightarrow>
     t \<noteq> [] \<and>
     (\<exists>s\<in>set selectors. \<exists>textEl tc.
        querySelector el s = Some textEl \<and> textContent textEl = Some tc \<and> t = trim tc)"
  by (induction selectors) (auto split: option.splits if_splits)

lemma trim_unspaced:
  assumes "s \<noteq> []" and "\<not> isSpace (hd s)" and "\<not> isSpace (last s)"
  shows "trim s = s"
proof -
  have "dropWhile isSpace s = s"
    using assms(2) by (simp add: dropWhile_eq_self_iff)
  moreover have "dropWhile isSpace (rev s) = rev s"
    using assms(1,3) by (simp add: dropWhile_eq_self_iff hd_rev)
  ultimately show ?thesis by (simp add: trim_def)
qed

lemma trim_long_text: "trim long_text = long_text"
  by (rule trim_unspaced) (simp_all add: long_text_def isSpace_def)

lemma length_long_text: "length long_text = 600"
  by (simp add: long_text_def)

lemma extract_element_long:
  assumes "5 \<le> length (extractTweetText el)"
  shows "\<exists>t. extract_element clock index el = Some t \<and> tweet_text t = extractTweetText el"
proof -
  have "extractTweetText el \<noteq> []" using assms by auto
  then show ?thesis using assms by (simp add: extract_element_def Let_def)
qed

text \<open>
  Claim C6, as the code has it. The text of a tweet is cut only on the last resort: when no
  text selector gives a text that is not empty after trimming, and the trimmed text of the
  element itself has more than 500 code units, the text is its first 280 code units
  followed by three dots, 283 code units in all; with at most 500 it is that text as it is.
  A text found through a text selector is the trimmed text of the element found, not empty
  and not cut, whatever its length.
\<close>

theorem extractTweetText_truncation:
  "(text_from_selectors el textSelectors = None \<and>
      500 < length (or_empty (map_option trim (textContent el))) \<longrightarrow>
        extractTweetText el = take 280 (or_empty (map_option trim (textContent el))) @ js ''...'' \<and>
        length (extractTweetText el) = 283) \<and>
   (text_from_selectors el textSelectors = None \<and>
      length (or_empty (map_option trim (textContent el))) \<le> 500 \<longrightarrow>
        extractTweetText el = or_empty (map_option trim (textContent el))) \<and>
   (text_from_selectors el textSelectors = None \<longrightarrow> length (extractTweetText el) \<le> 500) \<and>
   (text_from_selectors el textSelectors = Some t \<longrightarrow>
      extractTweetText el = t \<and> t \<noteq> [] \<and>
      (\<exists>s\<in>set textSelectors. \<exists>textEl tc.
         querySelector el s = Some textEl \<and> textContent textEl = Some tc \<and> t = trim tc))"
proof -
  have a: "text_from_selectors el textSelectors = None \<and>
      500 < length (or_empty (map_option trim (textContent el))) \<longrightarrow>
        extractTweetText el = take 280 (or_empty (map_option trim (textContent el))) @ js ''...'' \<and>
        length (extractTweetText el) = 283"
    by (simp add: extractTweetText_def Let_def js_def)
  have b: "text_from_selectors el textSelectors = None \<and>
      length (or_empty (map_option trim (textContent el))) \<le> 500 \<longrightarrow>
        extractTweetText el = or_empty (map_option trim (textContent el))"
    by (simp add: extractTweetText_def Let_def)
  have c: "text_from_selectors el textSelectors = None \<longrightarrow> length (extractTweetText el) \<le> 500"
    by (simp add: extractTweetText_def Let_def js_def)
  have d: "text_from_selectors el textSelectors = Some t \<longrightarrow>
      extractTweetText el = t \<and> t \<noteq> [] \<and>
      (\<exists>s\<in>set textSelectors. \<exists>textEl tc.
         querySelector el s = Some textEl \<and> textContent textEl = Some tc \<and> t = trim tc)"
    using text_from_selectors_Some [of el textSelectors t]
    by (simp add: extractTweetText_def)
  from a b c d show ?thesis by blast
qed

theorem extractTweetText_truncation_witness:
  "text_from_selectors (plain long_text) textSelectors = None \<and>
   500 < length (or_empty (map_option trim (textContent (plain long_text)))) \<and>
   extractTweetText (plain long_text) = replicate 280 0x61 @ js ''...'' \<and>
   length (extractTweetText (plain long_text)) = 283"
proof -
  have none: "text_from_selectors (plain long_text) textSelectors = None"
    by (simp add: textSelectors_def plain_def querySelector_def)
  have full: "or_empty (map_option trim (textContent (plain long_text))) = long_text"
    by (simp add: plain_def or_empty_def trim_long_text)
  have long: "500 < length (or_empty (map_option trim (textContent (plain long_text))))"
    by (simp add: full length_long_text)
  have cut: "take 280 long_text = replicate 280 0x61"
    by (simp add: long_text_def)
  from extractTweetText_truncation [of "plain long_text" "[]"] none long
  have "extractTweetText (plain long_text)
          = take 280 (or_empty (map_option trim (textContent (plain long_text)))) @ js ''...''"
    and len: "length (extractTweetText (plain long_text)) = 283"
    by blast+
  then have "extractTweetText (plain long_text) = replicate 280 0x61 @ js ''...''"
    by (simp only: full cut)
  with none long len show ?thesis by blast
qed

text \<open>
  Claim C6, as stated, cuts every text of more than 500 code units down to 283. A tweet
  whose text element holds 600 code units keeps all 600 of them.
\<close>

theorem extractTweetText_600_counterexample:
  "length (or_empty (textContent long_tweet_element)) = 600 \<and>
   length (extractTweetText long_tweet_element) = 600 \<and>
   (\<exists>t. extract_element sample_clock 0 long_tweet_element = Some t \<and>
        length (tweet_text t) = 600) \<and>
   \<not> length (extractTweetText long_tweet_element) \<le> 283"
proof -
  have a: "length (or_empty (textContent long_tweet_element)) = 600"
    by (simp add: long_tweet_element_def or_empty_def length_long_text)
  have "text_from_selectors long_tweet_element textSelectors = Some long_text"
    by (simp add: textSelectors_def long_tweet_element_def querySelector_def plain_def
        trim_long_text length_0_conv [symmetric] length_long_text del: length_0_conv)
  then have t: "extractTweetText long_tweet_element = long_text"
    by (simp add: extractTweetText_def)
  have b: "length (extractTweetText long_tweet_element) = 600"
    by (simp add: t length_long_text)
  have "5 \<le> length (extractTweetText long_tweet_element)"
    by (simp add: b)
  from extract_element_long [OF this, of sample_clock 0]
  have c: "\<exists>t. extract_element sample_clock 0 long_tweet_element = Some t \<and>
        length (tweet_text t) = 600"
    using b by auto
  from a b c show ?thesis by simp
qed

section \<open>The engagement fields of a tweet\<close>

lemma engagement_from_buttons_nat:
  "engagement_from_buttons el ids = Some num \<Longrightarrow> \<exists>n::nat. num = Num (of_nat n)"
proof (induction ids)
  case Nil
  then show ?case by simp
next
  case (Cons testId rest)
  let ?sel = "js ''[data-testid=\"'' @ testId @ js ''\"] span''"
  show ?case
  proof (cases "querySelector el ?sel")
    case None
    then show ?thesis using Cons by simp
  next
    case (Some engagementEl)
    let ?t = "or_empty (textContent engagementEl)"
    show ?thesis
    proof (cases "?t \<noteq> [] \<and> js_positive (parseEngagement ?t)")
      case True
      then have num: "num = parseEngagement ?t"
        using Cons.prems Some by (simp add: Let_def)
      from True have "parseEngagement ?t \<noteq> NaN"
        by (auto simp: js_positive_def)
      with parseEngagement_integer [of ?t] num show ?thesis by auto
    next
      case False
      then have "engagement_from_buttons el rest = Some num"
        using Cons.prems Some by (auto simp: Let_def split: if_splits)
      then show ?thesis by (rule Cons.IH)
    qed
  qed
qed

text \<open>
  The likes, retweets and replies of a tweet are non-negative integers: a count read from a
  button is kept only when it is greater than 0, which NaN is not, and the last resort is the
  first run of digits of the element's text, or 0.
\<close>

lemma extractEngagement_nat: "\<exists>n::nat. extractEngagement el type = Num (of_nat n)"
proof (cases "engagement_from_buttons el (testIds type)")
  case (Some num)
  then show ?thesis
    using engagement_from_buttons_nat [OF Some] by (simp add: extractEngagement_def)
next
  case None
  show ?thesis
  proof (cases "first_digits (or_empty (textContent el))")
    case no: None
    have "extractEngagement el type = Num (of_nat 0)"
      using None no by (simp add: extractEngagement_def)
    then show ?thesis by blast
  next
    case (Some ds)
    then show ?thesis
      using None first_digits_parseInt [OF Some] by (simp add: extractEngagement_def)
  qed
qed

end
